theory Spec2Isabelle
  imports Complex_Main
begin

section \<open>Data model of \<open>src/index.ts\<close>\<close>

text \<open>
  The five enums of the source.  \<open>GradeEnum\<close> is the only numeric enum; its members
  carry the numbers 5, 4, 3 and 2, read by \<open>GradeEnum_value\<close>.
\<close>

datatype StudentStatus = Active | Academic_Leave | Graduated | Expelled

datatype CourseType = Mandatory | Optional | Special

datatype Semester = First | Second

datatype GradeEnum = Excellent | Good | Satisfactory | Unsatisfactory

datatype Faculty = Computer_Science | Economics | Law | Engineering

fun GradeEnum_value :: "GradeEnum \<Rightarrow> int" where
  "GradeEnum_value Excellent = 5"
| "GradeEnum_value Good = 4"
| "GradeEnum_value Satisfactory = 3"
| "GradeEnum_value Unsatisfactory = 2"

text \<open>
  A \<open>Date\<close> is its time value (milliseconds since the epoch).  The integer-valued
  \<open>number\<close> fields (ids, year, credits, maxStudents) are unbounded integers.
\<close>

type_synonym Date = int

text \<open>
  \<open>Omit<Student, "id">\<close> is the record of the six fields a caller supplies;
  \<open>Student\<close> extends it with the \<open>id\<close>, which is what the object spread
  \<open>{ ...student, id: n }\<close> builds.
\<close>

record StudentWithoutId =
  fullName :: string
  faculty :: Faculty
  year :: int
  status :: StudentStatus
  enrollmentDate :: Date
  groupNumber :: string

record Student = StudentWithoutId +
  id :: int

record Course =
  id :: int
  name :: string
  type :: CourseType
  credits :: int
  semester :: Semester
  faculty :: Faculty
  maxStudents :: int

record Grade =
  studentId :: int
  courseId :: int
  grade :: "GradeEnum option"
  date :: Date
  semester :: Semester

text \<open>The private fields of the class, in declaration order.\<close>

record UniversityManagementSystem =
  students :: "Student list"
  courses :: "Course list"
  grades :: "Grade list"
  nextStudentId :: int
  nextCourseId :: int

text \<open>The state built by \<open>new UniversityManagementSystem()\<close>.\<close>

definition new_UniversityManagementSystem :: UniversityManagementSystem where
  "new_UniversityManagementSystem =
     \<lparr>students = [], courses = [], grades = [], nextStudentId = 1, nextCourseId = 1\<rparr>"

text \<open>
  Every \<open>throw new Error(msg)\<close> is the value \<open>Error msg\<close>.  The names the
  specification gives to the failures stand for the messages of the source.
\<close>

datatype error = Error string

definition InvalidReference :: "error \<Rightarrow> bool" where
  "InvalidReference e \<longleftrightarrow>
     e = Error ''Invalid student or course ID.'' \<or> e = Error ''Invalid student ID.''"

definition FacultyMismatch :: error where
  "FacultyMismatch = Error ''Faculty mismatch.''"

definition CourseFull :: error where
  "CourseFull = Error ''Course is full.''"

definition NotRegistered :: error where
  "NotRegistered = Error ''Student is not registered for this course.''"

definition IllegalTransition :: error where
  "IllegalTransition = Error ''Cannot change status of an expelled student.''"

text \<open>
  A method that mutates the object returns what the caller observes (the returned value,
  or the error thrown) together with the object as the call leaves it.  A throw does not
  roll anything back, so the state component after a throw is the state at the throw.
\<close>

type_synonym 'a outcome = "(error + 'a) \<times> UniversityManagementSystem"

text \<open>
  \<open>Array.prototype.find\<close> yields a reference to the first element that satisfies the
  predicate, or \<open>undefined\<close>.  Where the source only reads the element, \<open>find\<close> of
  the list library is that value.  Where the source writes through the reference, the
  reference is the position of the element in the array: \<open>findRef\<close>.
\<close>

fun findRef :: "('a \<Rightarrow> bool) \<Rightarrow> 'a list \<Rightarrow> nat option" where
  "findRef P [] = None"
| "findRef P (x # xs) = (if P x then Some 0 else map_option Suc (findRef P xs))"

text \<open>
  The result of \<open>calculateAverageGrade\<close> is a JavaScript \<open>number\<close>, an IEEE-754
  double: a finite value (the rational it denotes; the two zeros are one value),
  \<open>NaN\<close> or an infinity.
\<close>

datatype number = Num rat | NaN | Infinity | NegInfinity

text \<open>
  The result of an arithmetic operation on doubles is the exact result rounded to the
  nearest double, ties to the even significand (\<open>round_double\<close>).  A double with
  exponent \<open>e\<close> (from \<open>-1022\<close>, which also holds the subnormal numbers, to
  \<open>1023\<close>) is a multiple of \<open>2 ^ (e - 52)\<close>.  \<open>binade n e x\<close> climbs from
  \<open>e\<close>, at most \<open>n\<close> steps, to the largest exponent whose power of two is at most
  \<open>x\<close>; \<open>double_exponent x\<close> is that exponent within the range of the format.  A
  rounded value of magnitude \<open>2 ^ 1024\<close> or more is an infinity.
\<close>

definition round_half_even :: "rat \<Rightarrow> int" where
  "round_half_even x =
     (let f = \<lfloor>x\<rfloor>; d = x - of_int f
      in if d < 1 / 2 then f
         else if 1 / 2 < d then f + 1
         else if even f then f else f + 1)"

fun binade :: "nat \<Rightarrow> int \<Rightarrow> rat \<Rightarrow> int" where
  "binade 0 e x = e"
| "binade (Suc n) e x = (if power_int 2 (e + 1) \<le> x then binade n (e + 1) x else e)"

definition double_exponent :: "rat \<Rightarrow> int" where
  "double_exponent x = binade 2045 (- 1022) \<bar>x\<bar>"

definition round_double :: "rat \<Rightarrow> number" where
  "round_double x =
     (let ulp = power_int 2 (double_exponent x - 52);
          r = of_int (round_half_even (x / ulp)) * ulp
      in if power_int 2 1024 \<le> r then Infinity
         else if r \<le> - power_int 2 1024 then NegInfinity
         else Num r)"

text \<open>
  The operator \<open>/\<close> on two finite doubles: the rounded quotient; \<open>NaN\<close> for
  \<open>0 / 0\<close> and an infinity for any other division by zero.  \<open>>=\<close> is false
  whenever an operand is \<open>NaN\<close>.
\<close>

definition js_div :: "rat \<Rightarrow> rat \<Rightarrow> number" where
  "js_div a b =
     (if b \<noteq> 0 then round_double (a / b)
      else if a = 0 then NaN
      else if 0 < a then Infinity else NegInfinity)"

fun js_ge :: "number \<Rightarrow> rat \<Rightarrow> bool" where
  "js_ge (Num a) b = (b \<le> a)"
| "js_ge NaN b = False"
| "js_ge Infinity b = True"
| "js_ge NegInfinity b = False"

section \<open>The methods of \<open>UniversityManagementSystem\<close>\<close>

text \<open>
  The object is the first argument; \<open>now\<close> is the value \<open>new Date()\<close> takes in
  the call.  An argument that shares its name with a field is primed.
\<close>

definition enrollStudent ::
  "UniversityManagementSystem \<Rightarrow> StudentWithoutId \<Rightarrow> Student \<times> UniversityManagementSystem" where
  "enrollStudent ums student =
     (let newStudent = StudentWithoutId.extend student (Student.fields (nextStudentId ums));
          ums1 = ums\<lparr>nextStudentId := nextStudentId ums + 1\<rparr>;
          ums2 = ums1\<lparr>students := students ums1 @ [newStudent]\<rparr>
      in (newStudent, ums2))"

definition registerForCourse ::
  "UniversityManagementSystem \<Rightarrow> int \<Rightarrow> int \<Rightarrow> Date \<Rightarrow> unit outcome" where
  "registerForCourse ums studentId' courseId' now =
     (case (find (\<lambda>c. Course.id c = courseId') (courses ums),
            find (\<lambda>s. Student.id s = studentId') (students ums)) of
        (Some course, Some student) \<Rightarrow>
          if Course.faculty course \<noteq> StudentWithoutId.faculty student
          then (Inl (Error ''Faculty mismatch.''), ums)
          else if maxStudents course
                  \<le> int (length (filter (\<lambda>g. courseId g = courseId') (grades ums)))
          then (Inl (Error ''Course is full.''), ums)
          else (Inr (),
                ums\<lparr>grades := grades ums @
                  [\<lparr>studentId = studentId', courseId = courseId', grade = None,
                    date = now, semester = Course.semester course\<rparr>]\<rparr>)
      | _ \<Rightarrow> (Inl (Error ''Invalid student or course ID.''), ums))"

definition setGrade ::
  "UniversityManagementSystem \<Rightarrow> int \<Rightarrow> int \<Rightarrow> GradeEnum \<Rightarrow> Date \<Rightarrow> unit outcome" where
  "setGrade ums studentId' courseId' grade' now =
     (case findRef (\<lambda>g. studentId g = studentId' \<and> courseId g = courseId') (grades ums) of
        None \<Rightarrow> (Inl (Error ''Student is not registered for this course.''), ums)
      | Some registration \<Rightarrow>
          (let gs1 = (grades ums)[registration :=
                       (grades ums ! registration)\<lparr>grade := Some grade'\<rparr>];
               gs2 = gs1[registration := (gs1 ! registration)\<lparr>date := now\<rparr>]
           in (Inr (), ums\<lparr>grades := gs2\<rparr>)))"

definition updateStudentStatus ::
  "UniversityManagementSystem \<Rightarrow> int \<Rightarrow> StudentStatus \<Rightarrow> unit outcome" where
  "updateStudentStatus ums studentId' newStatus =
     (case findRef (\<lambda>s. Student.id s = studentId') (students ums) of
        None \<Rightarrow> (Inl (Error ''Invalid student ID.''), ums)
      | Some student \<Rightarrow>
          if status (students ums ! student) = Expelled \<and> newStatus \<noteq> Academic_Leave
          then (Inl (Error ''Cannot change status of an expelled student.''), ums)
          else (Inr (),
                ums\<lparr>students := (students ums)[student :=
                  (students ums ! student)\<lparr>status := newStatus\<rparr>]\<rparr>))"

definition getStudentsByFaculty :: "UniversityManagementSystem \<Rightarrow> Faculty \<Rightarrow> Student list" where
  "getStudentsByFaculty ums faculty' =
     filter (\<lambda>s. StudentWithoutId.faculty s = faculty') (students ums)"

definition getStudentGrades :: "UniversityManagementSystem \<Rightarrow> int \<Rightarrow> Grade list" where
  "getStudentGrades ums studentId' = filter (\<lambda>g. studentId g = studentId') (grades ums)"

definition getAvailableCourses ::
  "UniversityManagementSystem \<Rightarrow> Faculty \<Rightarrow> Semester \<Rightarrow> Course list" where
  "getAvailableCourses ums faculty' semester' =
     filter (\<lambda>c. Course.faculty c = faculty' \<and> Course.semester c = semester') (courses ums)"

text \<open>
  \<open>g.grade || 0\<close>: the grade's number, or 0 when the grade is null or the number is 0.
  The sum \<open>total\<close> and the length are integers far below \<open>2 ^ 53\<close> (an array
  holds fewer than \<open>2 ^ 32\<close> records, of grades up to 5), so the additions of
  \<open>reduce\<close> are exact and the division is the one operation that rounds.
\<close>

definition grade_or_0 :: "GradeEnum option \<Rightarrow> int" where
  "grade_or_0 g =
     (case g of None \<Rightarrow> 0
      | Some v \<Rightarrow> if GradeEnum_value v = 0 then 0 else GradeEnum_value v)"

definition calculateAverageGrade :: "UniversityManagementSystem \<Rightarrow> int \<Rightarrow> number" where
  "calculateAverageGrade ums studentId' =
     (let studentGrades = filter (\<lambda>g. studentId g = studentId' \<and> grade g \<noteq> None) (grades ums);
          total = foldl (\<lambda>acc g. acc + grade_or_0 (grade g)) 0 studentGrades
      in if length studentGrades \<noteq> 0
         then js_div (of_int total) (of_nat (length studentGrades))
         else Num 0)"

definition getTopStudentsByFaculty :: "UniversityManagementSystem \<Rightarrow> Faculty \<Rightarrow> Student list" where
  "getTopStudentsByFaculty ums faculty' =
     (let studentsByFaculty = getStudentsByFaculty ums faculty'
      in filter (\<lambda>student.
           (let average = calculateAverageGrade ums (Student.id student)
            in js_ge average (of_int (GradeEnum_value Excellent - 1))))
         studentsByFaculty)"

section \<open>Sequences of calls\<close>

text \<open>
  A caller drives the object by a sequence of method calls and, like the script at the
  end of the source, catches what a call throws and carries on.  \<open>call\<close> is one such
  call with what the caller sees of it, \<open>calls\<close> a sequence of them.  \<open>PushCourse\<close>
  is the script's \<open>ums['courses'].push(course)\<close>, the only way a course gets in.
\<close>

datatype call =
    EnrollStudent StudentWithoutId
  | RegisterForCourse int int Date
  | SetGrade int int GradeEnum Date
  | UpdateStudentStatus int StudentStatus
  | PushCourse Course

datatype observed = Returned_Student Student | Returned | Thrown error

definition observe :: "unit outcome \<Rightarrow> observed \<times> UniversityManagementSystem" where
  "observe r = (case r of (Inl e, ums) \<Rightarrow> (Thrown e, ums) | (Inr _, ums) \<Rightarrow> (Returned, ums))"

fun do_call :: "UniversityManagementSystem \<Rightarrow> call \<Rightarrow> observed \<times> UniversityManagementSystem" where
  "do_call ums (EnrollStudent student) =
     (case enrollStudent ums student of (s, ums') \<Rightarrow> (Returned_Student s, ums'))"
| "do_call ums (RegisterForCourse studentId' courseId' now) =
     observe (registerForCourse ums studentId' courseId' now)"
| "do_call ums (SetGrade studentId' courseId' grade' now) =
     observe (setGrade ums studentId' courseId' grade' now)"
| "do_call ums (UpdateStudentStatus studentId' newStatus) =
     observe (updateStudentStatus ums studentId' newStatus)"
| "do_call ums (PushCourse course) = (Returned, ums\<lparr>courses := courses ums @ [course]\<rparr>)"

fun calls :: "UniversityManagementSystem \<Rightarrow> call list \<Rightarrow> observed list \<times> UniversityManagementSystem" where
  "calls ums [] = ([], ums)"
| "calls ums (c # cs) =
     (case do_call ums c of (r, ums1) \<Rightarrow>
        (case calls ums1 cs of (rs, ums2) \<Rightarrow> (r # rs, ums2)))"

text \<open>The students that the \<open>enrollStudent\<close> calls of a sequence returned, in order.\<close>

fun returned_students :: "observed list \<Rightarrow> Student list" where
  "returned_students [] = []"
| "returned_students (Returned_Student s # rs) = s # returned_students rs"
| "returned_students (_ # rs) = returned_students rs"

text \<open>The arguments of the \<open>enrollStudent\<close> calls of a sequence, in order.\<close>

fun enroll_arguments :: "call list \<Rightarrow> StudentWithoutId list" where
  "enroll_arguments [] = []"
| "enroll_arguments (EnrollStudent student # cs) = student # enroll_arguments cs"
| "enroll_arguments (_ # cs) = enroll_arguments cs"

subsection \<open>The script of the source\<close>

text \<open>
  The objects the script builds and the states it passes through: after the two
  enrolments and the seeding of the catalogue (\<open>script_seeded\<close>), after the two
  registrations (\<open>script_registered\<close>) and after the two grades (\<open>script_graded\<close>).
  The registrations are stamped 1000 and 2000, the grades 3000 and 4000.
\<close>

definition student1_data :: StudentWithoutId where
  "student1_data =
     \<lparr>fullName = ''Ivan Ivanov'', faculty = Computer_Science, year = 1, status = Active,
      enrollmentDate = 1693526400000, groupNumber = ''CS-101''\<rparr>"

definition student2_data :: StudentWithoutId where
  "student2_data =
     \<lparr>fullName = ''Maria Petrenko'', faculty = Economics, year = 2, status = Active,
      enrollmentDate = 1661990400000, groupNumber = ''ECO-201''\<rparr>"

definition course1 :: Course where
  "course1 =
     \<lparr>Course.id = 1, name = ''Data Structures'', type = Mandatory, credits = 5,
      semester = First, faculty = Computer_Science, maxStudents = 2\<rparr>"

definition course2 :: Course where
  "course2 =
     \<lparr>Course.id = 2, name = ''Microeconomics'', type = Optional, credits = 3,
      semester = Second, faculty = Economics, maxStudents = 1\<rparr>"

definition student1 :: Student where
  "student1 = fst (enrollStudent new_UniversityManagementSystem student1_data)"

definition student2 :: Student where
  "student2 =
     fst (enrollStudent (snd (enrollStudent new_UniversityManagementSystem student1_data))
       student2_data)"

definition script_seeded :: UniversityManagementSystem where
  "script_seeded =
     snd (calls new_UniversityManagementSystem
       [EnrollStudent student1_data, EnrollStudent student2_data,
        PushCourse course1, PushCourse course2])"

definition script_registered :: UniversityManagementSystem where
  "script_registered =
     snd (calls script_seeded [RegisterForCourse 1 1 1000, RegisterForCourse 2 2 2000])"

definition script_graded :: UniversityManagementSystem where
  "script_graded =
     snd (calls script_registered [SetGrade 1 1 Excellent 3000, SetGrade 2 2 Good 4000])"

text \<open>
  A continuation of the script that gives student 1 a second grade: a second course of
  the student's faculty is pushed, the student is registered for it and graded Good.
\<close>

definition course3 :: Course where
  "course3 =
     \<lparr>Course.id = 3, name = ''Algorithms'', type = Optional, credits = 4,
      semester = Second, faculty = Computer_Science, maxStudents = 2\<rparr>"

definition script_second_grade :: UniversityManagementSystem where
  "script_second_grade =
     snd (calls script_graded
       [PushCourse course3, RegisterForCourse 1 3 5000, SetGrade 1 3 Good 6000])"

text \<open>
  Another continuation of the script, which gives student 1 three grades: two more
  courses of the student's faculty, graded Excellent and Good.
\<close>

definition course4 :: Course where
  "course4 =
     \<lparr>Course.id = 4, name = ''Databases'', type = Special, credits = 4,
      semester = First, faculty = Computer_Science, maxStudents = 2\<rparr>"

definition script_three_grades :: UniversityManagementSystem where
  "script_three_grades =
     snd (calls script_graded
       [PushCourse course3, PushCourse course4,
        RegisterForCourse 1 3 5000, RegisterForCourse 1 4 5100,
        SetGrade 1 3 Excellent 6000, SetGrade 1 4 Good 6100])"

text \<open>The script's state after the registrations, with student 1 expelled.\<close>

definition script_expelled :: UniversityManagementSystem where
  "script_expelled = snd (calls script_registered [UpdateStudentStatus 1 Expelled])"

section \<open>Notions of the specification\<close>

text \<open>
  The numbers of a student's graded records (those whose grade is not null), in the
  order of the records, and the arithmetic mean of a list of numbers.
\<close>

definition graded_values :: "UniversityManagementSystem \<Rightarrow> int \<Rightarrow> int list" where
  "graded_values ums studentId' =
     map (\<lambda>g. GradeEnum_value (the (grade g)))
       (filter (\<lambda>g. studentId g = studentId' \<and> grade g \<noteq> None) (grades ums))"

definition arithmetic_mean :: "int list \<Rightarrow> rat" where
  "arithmetic_mean vs = of_int (sum_list vs) / of_nat (length vs)"

text \<open>The number of registrations a course has: the records that carry its id.\<close>

definition registrations :: "UniversityManagementSystem \<Rightarrow> int \<Rightarrow> nat" where
  "registrations ums courseId' = length (filter (\<lambda>g. courseId g = courseId') (grades ums))"

text \<open>
  A student id is eligible for a course when the student exists and has the course's
  faculty: the first two checks of \<open>registerForCourse\<close> pass.
\<close>

definition eligible :: "UniversityManagementSystem \<Rightarrow> Course \<Rightarrow> int \<Rightarrow> bool" where
  "eligible ums course studentId' \<longleftrightarrow>
     (\<exists>student. find (\<lambda>s. Student.id s = studentId') (students ums) = Some student \<and>
        StudentWithoutId.faculty student = Course.faculty course)"


section \<open>Facts about the auxiliary functions\<close>

lemma findRef_None_iff: "findRef P xs = None \<longleftrightarrow> (\<forall>x\<in>set xs. \<not> P x)"
  by (induction xs) auto

lemma findRef_Some_iff:
  "findRef P xs = Some i \<longleftrightarrow> i < length xs \<and> P (xs ! i) \<and> (\<forall>j<i. \<not> P (xs ! j))"
proof (induction xs arbitrary: i)
  case Nil
  then show ?case by simp
next
  case (Cons x xs)
  show ?case
  proof (cases "P x")
    case True
    then show ?thesis by (cases i) auto
  next
    case False
    show ?thesis
    proof (cases i)
      case 0
      with False show ?thesis by auto
    next
      case (Suc k)
      have "(\<forall>j<Suc k. \<not> P ((x # xs) ! j)) \<longleftrightarrow> (\<forall>j<k. \<not> P (xs ! j))"
        using False by (auto simp: less_Suc_eq_0_disj)
      with False Suc Cons.IH [of k] show ?thesis by auto
    qed
  qed
qed


subsection \<open>Rounding to a double\<close>

lemma round_half_even_of_int: "round_half_even (of_int k) = k"
  by (simp add: round_half_even_def)

lemma round_half_even_error: "\<bar>of_int (round_half_even x) - x\<bar> \<le> 1 / 2"
proof -
  have "of_int \<lfloor>x\<rfloor> \<le> x" "x < of_int \<lfloor>x\<rfloor> + 1" by linarith+
  then show ?thesis
    by (auto simp: round_half_even_def Let_def)
qed

lemma round_half_even_ge: "of_int a \<le> x \<Longrightarrow> a \<le> round_half_even x"
proof -
  assume "of_int a \<le> x"
  then have "a \<le> \<lfloor>x\<rfloor>" by (simp add: le_floor_iff)
  then show ?thesis by (auto simp: round_half_even_def Let_def)
qed

lemma round_half_even_le: "x \<le> of_int b \<Longrightarrow> round_half_even x \<le> b"
proof -
  assume b: "x \<le> of_int b"
  show ?thesis
  proof (cases "x = of_int b")
    case True
    then show ?thesis by (simp add: round_half_even_of_int)
  next
    case False
    with b have "x < of_int b" by simp
    then have "\<lfloor>x\<rfloor> < b" by (simp add: floor_less_iff)
    then have "\<lfloor>x\<rfloor> + 1 \<le> b" by simp
    moreover have "\<lfloor>x\<rfloor> \<le> b" using \<open>\<lfloor>x\<rfloor> < b\<close> by simp
    ultimately show ?thesis by (auto simp: round_half_even_def Let_def)
  qed
qed

lemma power_int_2_less_D: "power_int (2::rat) a < power_int 2 b \<Longrightarrow> a < b"
  using power_int_increasing [of b a "2::rat"] by (cases "a < b") simp_all

lemma binade_eq:
  "e \<le> t \<Longrightarrow> t - e \<le> int n \<Longrightarrow> power_int 2 t \<le> x \<Longrightarrow> x < power_int 2 (t + 1)
     \<Longrightarrow> binade n e x = t"
proof (induction n arbitrary: e)
  case 0
  then show ?case by simp
next
  case (Suc n)
  show ?case
  proof (cases "power_int 2 (e + 1) \<le> x")
    case True
    with Suc.prems(4) have "power_int (2::rat) (e + 1) < power_int 2 (t + 1)" by linarith
    then have "e + 1 < t + 1" by (rule power_int_2_less_D)
    then have "binade n (e + 1) x = t"
      using Suc.prems by (intro Suc.IH) simp_all
    with True show ?thesis by simp
  next
    case False
    with Suc.prems(3) have "power_int (2::rat) t < power_int 2 (e + 1)" by linarith
    then have "t < e + 1" by (rule power_int_2_less_D)
    with Suc.prems(1) False show ?thesis by simp
  qed
qed

lemma double_exponent_eq:
  assumes "- 1022 \<le> t" "t \<le> 1023" "power_int 2 t \<le> \<bar>x\<bar>" "\<bar>x\<bar> < power_int 2 (t + 1)"
  shows "double_exponent x = t"
  unfolding double_exponent_def using assms by (intro binade_eq) simp_all

lemma round_double_binade:
  fixes x :: rat
  defines "r \<equiv> \<lambda>t. of_int (round_half_even (x / power_int 2 (t - 52))) * power_int (2::rat) (t - 52)"
  assumes "- 1022 \<le> t" "t \<le> 1023" "power_int 2 t \<le> \<bar>x\<bar>" "\<bar>x\<bar> < power_int 2 (t + 1)"
    and "- power_int 2 1024 < r t" "r t < power_int 2 1024"
  shows "round_double x = Num (r t)"
proof -
  have e: "double_exponent x = t"
    using assms(2-5) by (rule double_exponent_eq)
  from assms(6,7) have "\<not> power_int 2 1024 \<le> r t" "\<not> r t \<le> - power_int 2 1024"
    by linarith+
  then show ?thesis
    unfolding round_double_def e Let_def r_def by (simp only: if_False)
qed

lemma round_double_scaled:
  fixes x :: rat and j :: nat and t a b :: int
  defines "k \<equiv> round_half_even (x * 2 ^ j)"
  assumes t: "- 1022 \<le> t" "t \<le> 1023" "t - 52 = - int j"
    and x: "power_int 2 t \<le> x" "x < power_int 2 (t + 1)"
    and a: "of_int a \<le> x * 2 ^ j" "- power_int 2 1024 < of_int a / (2 ^ j :: rat)"
    and b: "x * 2 ^ j \<le> of_int b" "of_int b / (2 ^ j :: rat) < power_int 2 1024"
  shows "round_double x = Num (of_int k / 2 ^ j)"
    and "of_int a / 2 ^ j \<le> of_int k / (2 ^ j :: rat)"
    and "of_int k / (2 ^ j :: rat) \<le> of_int b / 2 ^ j"
    and "\<bar>of_int k / 2 ^ j - x\<bar> \<le> 1 / 2 ^ Suc j"
proof -
  have "a \<le> k" unfolding k_def using a(1) by (rule round_half_even_ge)
  then show lo: "of_int a / 2 ^ j \<le> of_int k / (2 ^ j :: rat)"
    by (simp add: divide_right_mono)
  have "k \<le> b" unfolding k_def using b(1) by (rule round_half_even_le)
  then show hi: "of_int k / (2 ^ j :: rat) \<le> of_int b / 2 ^ j"
    by (simp add: divide_right_mono)
  have "\<bar>of_int k - x * 2 ^ j\<bar> \<le> 1 / 2"
    unfolding k_def by (rule round_half_even_error)
  then have "\<bar>of_int k - x * 2 ^ j\<bar> / 2 ^ j \<le> (1 / 2) / 2 ^ j"
    by (rule divide_right_mono) simp
  moreover have "\<bar>of_int k / 2 ^ j - x\<bar> = \<bar>(of_int k - x * 2 ^ j) / 2 ^ j\<bar>"
    by (simp add: diff_divide_distrib)
  moreover have "\<bar>(of_int k - x * 2 ^ j) / 2 ^ j\<bar> = \<bar>of_int k - x * 2 ^ j\<bar> / 2 ^ j"
    by (simp add: abs_divide)
  ultimately show "\<bar>of_int k / 2 ^ j - x\<bar> \<le> 1 / 2 ^ Suc j"
    by simp
  have p: "power_int (2::rat) (t - 52) = 1 / 2 ^ j"
    unfolding t(3) by (simp add: power_int_minus_divide)
  have q: "of_int (round_half_even (x / power_int 2 (t - 52))) * power_int (2::rat) (t - 52)
           = of_int k / 2 ^ j"
    unfolding p k_def by simp
  have "0 < power_int (2::rat) t" by simp
  with x(1) have "0 \<le> x" by linarith
  then have ax: "\<bar>x\<bar> = x" by simp
  have "round_double x =
          Num (of_int (round_half_even (x / power_int 2 (t - 52))) * power_int 2 (t - 52))"
  proof (rule round_double_binade)
    show "- 1022 \<le> t" "t \<le> 1023" by (fact t)+
    show "power_int 2 t \<le> \<bar>x\<bar>" "\<bar>x\<bar> < power_int 2 (t + 1)"
      unfolding ax by (fact x)+
    show "- power_int 2 1024
            < of_int (round_half_even (x / power_int 2 (t - 52))) * power_int (2::rat) (t - 52)"
      unfolding q using lo a(2) by linarith
    show "of_int (round_half_even (x / power_int 2 (t - 52))) * power_int (2::rat) (t - 52)
            < power_int 2 1024"
      unfolding q using hi b(2) by linarith
  qed
  then show "round_double x = Num (of_int k / 2 ^ j)" unfolding q .
qed

text \<open>The quotients of the method lie between 2 and 5: exponent 1 or 2.\<close>

lemma round_double_grade_range:
  assumes "2 \<le> x" "x \<le> 5"
  shows "\<exists>r. round_double x = Num r \<and> 2 \<le> r \<and> r \<le> 5 \<and> \<bar>r - x\<bar> \<le> 1 / 2 ^ 51"
proof (cases "x < 4")
  case True
  let ?r = "of_int (round_half_even (x * 2 ^ 51)) / (2 ^ 51 :: rat)"
  have t: "- 1022 \<le> (1::int)" "(1::int) \<le> 1023" "(1::int) - 52 = - int 51" by simp_all
  have x: "power_int 2 1 \<le> x" "x < power_int 2 (1 + 1)" using assms True by simp_all
  have a: "of_int (2 * 2 ^ 51) \<le> x * 2 ^ 51"
          "- power_int 2 1024 < of_int (2 * 2 ^ 51) / (2 ^ 51 :: rat)"
    using assms by simp_all
  have b: "x * 2 ^ 51 \<le> of_int (4 * 2 ^ 51)"
          "of_int (4 * 2 ^ 51) / (2 ^ 51 :: rat) < power_int 2 1024"
    using True by simp_all
  note r = round_double_scaled [OF t x a b]
  have "\<bar>?r - x\<bar> \<le> 1 / 2 ^ 52" using r(4) by simp
  also have "\<dots> \<le> (1::rat) / 2 ^ 51" by simp
  finally have "\<bar>?r - x\<bar> \<le> 1 / 2 ^ 51" .
  moreover have "2 \<le> ?r" using r(2) by simp
  moreover have "?r \<le> 5" using r(3) by simp
  ultimately show ?thesis using r(1) by blast
next
  case False
  let ?r = "of_int (round_half_even (x * 2 ^ 50)) / (2 ^ 50 :: rat)"
  have t: "- 1022 \<le> (2::int)" "(2::int) \<le> 1023" "(2::int) - 52 = - int 50" by simp_all
  have x: "power_int 2 2 \<le> x" "x < power_int 2 (2 + 1)" using assms False by simp_all
  have a: "of_int (4 * 2 ^ 50) \<le> x * 2 ^ 50"
          "- power_int 2 1024 < of_int (4 * 2 ^ 50) / (2 ^ 50 :: rat)"
    using False by simp_all
  have b: "x * 2 ^ 50 \<le> of_int (5 * 2 ^ 50)"
          "of_int (5 * 2 ^ 50) / (2 ^ 50 :: rat) < power_int 2 1024"
    using assms by simp_all
  note r = round_double_scaled [OF t x a b]
  have "\<bar>?r - x\<bar> \<le> 1 / 2 ^ 51" using r(4) by simp
  moreover have "2 \<le> ?r" using r(2) by simp
  moreover have "?r \<le> 5" using r(3) by simp
  ultimately show ?thesis using r(1) by blast
qed

lemma round_double_grade_exact:
  assumes "2 \<le> x" "x \<le> 5" "x * 2 ^ 50 = of_int m"
  shows "round_double x = Num x"
proof (cases "x < 4")
  case True
  have t: "- 1022 \<le> (1::int)" "(1::int) \<le> 1023" "(1::int) - 52 = - int 51" by simp_all
  have x: "power_int 2 1 \<le> x" "x < power_int 2 (1 + 1)" using assms True by simp_all
  have a: "of_int (2 * 2 ^ 51) \<le> x * 2 ^ 51"
          "- power_int 2 1024 < of_int (2 * 2 ^ 51) / (2 ^ 51 :: rat)"
    using assms by simp_all
  have b: "x * 2 ^ 51 \<le> of_int (4 * 2 ^ 51)"
          "of_int (4 * 2 ^ 51) / (2 ^ 51 :: rat) < power_int 2 1024"
    using True by simp_all
  have "x * 2 ^ 51 = of_int (2 * m)" using assms(3) by simp
  then have "round_half_even (x * 2 ^ 51) = 2 * m"
    by (simp only: round_half_even_of_int)
  with round_double_scaled(1) [OF t x a b] \<open>x * 2 ^ 51 = of_int (2 * m)\<close> show ?thesis
    by (metis nonzero_mult_div_cancel_right power_eq_0_iff zero_neq_numeral)
next
  case False
  have t: "- 1022 \<le> (2::int)" "(2::int) \<le> 1023" "(2::int) - 52 = - int 50" by simp_all
  have x: "power_int 2 2 \<le> x" "x < power_int 2 (2 + 1)" using assms False by simp_all
  have a: "of_int (4 * 2 ^ 50) \<le> x * 2 ^ 50"
          "- power_int 2 1024 < of_int (4 * 2 ^ 50) / (2 ^ 50 :: rat)"
    using False by simp_all
  have b: "x * 2 ^ 50 \<le> of_int (5 * 2 ^ 50)"
          "of_int (5 * 2 ^ 50) / (2 ^ 50 :: rat) < power_int 2 1024"
    using assms by simp_all
  have "round_half_even (x * 2 ^ 50) = m"
    by (simp only: assms(3) round_half_even_of_int)
  with round_double_scaled(1) [OF t x a b] assms(3) show ?thesis
    by (metis nonzero_mult_div_cancel_right power_eq_0_iff zero_neq_numeral)
qed

lemma round_double_examples:
  "round_double 4 = Num 4" "round_double 5 = Num 5" "round_double (9 / 2) = Num (9 / 2)"
  by (rule round_double_grade_exact [where m = "4 * 2 ^ 50"], simp_all)
     (rule round_double_grade_exact [where m = "5 * 2 ^ 50"], simp_all,
      rule round_double_grade_exact [where m = "9 * 2 ^ 49"], simp_all)

lemma round_double_14_3: "round_double (14 / 3) = Num (5254199565265579 / 2 ^ 50)"
proof -
  have t: "- 1022 \<le> (2::int)" "(2::int) \<le> 1023" "(2::int) - 52 = - int 50" by simp_all
  have x: "power_int 2 2 \<le> (14 / 3 :: rat)" "(14 / 3 :: rat) < power_int 2 (2 + 1)" by simp_all
  have a: "of_int (4 * 2 ^ 50) \<le> (14 / 3 :: rat) * 2 ^ 50"
          "- power_int 2 1024 < of_int (4 * 2 ^ 50) / (2 ^ 50 :: rat)"
    by simp_all
  have b: "(14 / 3 :: rat) * 2 ^ 50 \<le> of_int (5 * 2 ^ 50)"
          "of_int (5 * 2 ^ 50) / (2 ^ 50 :: rat) < power_int 2 1024"
    by simp_all
  have f: "\<lfloor>(14 / 3 :: rat) * 2 ^ 50\<rfloor> = 5254199565265578"
    by (simp add: floor_eq_iff)
  have "round_half_even ((14 / 3) * 2 ^ 50) = 5254199565265579"
    unfolding round_half_even_def Let_def f by simp
  with round_double_scaled(1) [OF t x a b] show ?thesis by simp
qed

subsection \<open>The average\<close>

lemma foldl_add_sum_list:
  "foldl (\<lambda>acc g. acc + f g) a xs = a + sum_list (map f xs)" for a :: int
  by (induction xs arbitrary: a) simp_all

lemma GradeEnum_value_nonzero: "GradeEnum_value v \<noteq> 0"
  by (cases v) simp_all

lemma grade_or_0_graded:
  "grade g \<noteq> None \<Longrightarrow> grade_or_0 (grade g) = GradeEnum_value (the (grade g))"
  by (auto simp: grade_or_0_def)

text \<open>The \<open>reduce\<close> of \<open>calculateAverageGrade\<close> adds up the graded values.\<close>

lemma total_graded_values:
  "foldl (\<lambda>acc g. acc + grade_or_0 (grade g)) 0
     (filter (\<lambda>g. studentId g = sid \<and> grade g \<noteq> None) (grades ums))
   = sum_list (graded_values ums sid)"
proof -
  have "map (\<lambda>g. grade_or_0 (grade g))
          (filter (\<lambda>g. studentId g = sid \<and> grade g \<noteq> None) (grades ums))
        = graded_values ums sid"
    unfolding graded_values_def by (rule map_cong) (auto simp: grade_or_0_graded)
  then show ?thesis by (simp add: foldl_add_sum_list)
qed

lemma calculateAverageGrade_eq:
  "calculateAverageGrade ums sid =
     (if graded_values ums sid = [] then Num 0
      else round_double (arithmetic_mean (graded_values ums sid)))"
proof -
  have len: "length (filter (\<lambda>g. studentId g = sid \<and> grade g \<noteq> None) (grades ums))
             = length (graded_values ums sid)"
    by (simp add: graded_values_def)
  show ?thesis
    unfolding calculateAverageGrade_def Let_def total_graded_values len
    by (simp add: js_div_def arithmetic_mean_def)
qed

lemma graded_values_range:
  "v \<in> set (graded_values ums sid) \<Longrightarrow> 2 \<le> v \<and> v \<le> 5"
proof -
  have "2 \<le> GradeEnum_value g \<and> GradeEnum_value g \<le> 5" for g
    by (cases g) simp_all
  then show "v \<in> set (graded_values ums sid) \<Longrightarrow> 2 \<le> v \<and> v \<le> 5"
    by (auto simp: graded_values_def)
qed

lemma sum_list_range:
  "(\<And>v. v \<in> set vs \<Longrightarrow> 2 \<le> v \<and> v \<le> 5)
     \<Longrightarrow> 2 * int (length vs) \<le> sum_list vs \<and> sum_list vs \<le> 5 * int (length vs)"
  for vs :: "int list"
proof (induction vs)
  case Nil
  show ?case by simp
next
  case (Cons v vs)
  from Cons.prems [of v] have "2 \<le> v \<and> v \<le> 5" by simp
  moreover from Cons.prems
  have "2 * int (length vs) \<le> sum_list vs \<and> sum_list vs \<le> 5 * int (length vs)"
    by (intro Cons.IH) simp
  ultimately show ?case by simp
qed

lemma arithmetic_mean_range:
  assumes "graded_values ums sid \<noteq> []"
  shows "2 \<le> arithmetic_mean (graded_values ums sid)"
    and "arithmetic_mean (graded_values ums sid) \<le> 5"
proof -
  let ?vs = "graded_values ums sid"
  from assms have n: "0 < (of_nat (length ?vs) :: rat)" by simp
  have s: "2 * int (length ?vs) \<le> sum_list ?vs \<and> sum_list ?vs \<le> 5 * int (length ?vs)"
    by (rule sum_list_range) (rule graded_values_range)
  from s have "of_int (2 * int (length ?vs)) \<le> (of_int (sum_list ?vs) :: rat)"
    by (simp only: of_int_le_iff)
  then have "2 * of_nat (length ?vs) \<le> (of_int (sum_list ?vs) :: rat)" by simp
  with n show "2 \<le> arithmetic_mean ?vs"
    unfolding arithmetic_mean_def by (simp add: le_divide_eq)
  from s have "(of_int (sum_list ?vs) :: rat) \<le> of_int (5 * int (length ?vs))"
    by (simp only: of_int_le_iff)
  then have "(of_int (sum_list ?vs) :: rat) \<le> 5 * of_nat (length ?vs)" by simp
  with n show "arithmetic_mean ?vs \<le> 5"
    unfolding arithmetic_mean_def by (simp add: divide_le_eq)
qed

lemma getTopStudentsByFaculty_eq:
  "getTopStudentsByFaculty ums f =
     filter (\<lambda>s. StudentWithoutId.faculty s = f \<and>
                 js_ge (calculateAverageGrade ums (Student.id s)) 4) (students ums)"
  by (simp add: getTopStudentsByFaculty_def getStudentsByFaculty_def Let_def conj_commute)

subsection \<open>Grading\<close>

lemma findRef_list_update_same:
  assumes "findRef P xs = Some i" "P y"
  shows "findRef P (xs[i := y]) = Some i"
  using assms by (simp add: findRef_Some_iff)

lemma setGrade_found:
  assumes "findRef (\<lambda>r. studentId r = sid \<and> courseId r = cid) (grades ums) = Some i"
  shows "setGrade ums sid cid g now =
           (Inr (), ums\<lparr>grades := (grades ums)[i := (grades ums ! i)\<lparr>grade := Some g, date := now\<rparr>]\<rparr>)"
  using assms findRef_Some_iff [of "\<lambda>r. studentId r = sid \<and> courseId r = cid" "grades ums" i]
  by (simp add: setGrade_def Let_def)

lemma setGrade_not_found:
  assumes "findRef (\<lambda>r. studentId r = sid \<and> courseId r = cid) (grades ums) = None"
  shows "setGrade ums sid cid g now = (Inl NotRegistered, ums)"
  using assms by (simp add: setGrade_def NotRegistered_def)

lemma setGrade_twice:
  assumes "findRef (\<lambda>r. studentId r = sid \<and> courseId r = cid) (grades ums) = Some i"
  shows "setGrade (snd (setGrade ums sid cid g now)) sid cid g' now' = setGrade ums sid cid g' now'"
proof -
  let ?P = "\<lambda>r. studentId r = sid \<and> courseId r = cid"
  let ?x = "(grades ums ! i)\<lparr>grade := Some g, date := now\<rparr>"
  let ?ums1 = "ums\<lparr>grades := (grades ums)[i := ?x]\<rparr>"
  from assms have i: "i < length (grades ums)" and P: "?P (grades ums ! i)"
    by (simp_all add: findRef_Some_iff)
  from P have "?P ?x" by simp
  with assms have "findRef ?P (grades ?ums1) = Some i"
    by (simp add: findRef_list_update_same)
  then have "setGrade ?ums1 sid cid g' now' =
      (Inr (), ?ums1\<lparr>grades := (grades ?ums1)[i := (grades ?ums1 ! i)\<lparr>grade := Some g', date := now'\<rparr>]\<rparr>)"
    by (rule setGrade_found)
  with i show ?thesis
    by (simp add: setGrade_found [OF assms])
qed

subsection \<open>Enrolment and sequences of calls\<close>

lemma enrollStudent_eq:
  "enrollStudent ums d =
     (StudentWithoutId.extend d (Student.fields (nextStudentId ums)),
      ums\<lparr>nextStudentId := nextStudentId ums + 1,
          students := students ums @ [StudentWithoutId.extend d (Student.fields (nextStudentId ums))]\<rparr>)"
  by (simp add: enrollStudent_def Let_def)

lemma truncate_extend:
  "StudentWithoutId.truncate (StudentWithoutId.extend d (Student.fields n)) = d"
  by (simp add: StudentWithoutId.defs)

lemma id_extend: "Student.id (StudentWithoutId.extend d (Student.fields n)) = n"
  by (simp add: StudentWithoutId.defs Student.defs)

lemma observe_not_student: "fst (observe r) \<noteq> Returned_Student s"
  by (cases r) (auto simp: observe_def split: sum.splits)

lemma returned_students_observe:
  "returned_students (fst (observe r) # rs) = returned_students rs"
  by (cases r) (auto simp: observe_def split: sum.splits)

lemma snd_observe: "snd (observe r) = snd r"
  by (cases r) (auto simp: observe_def split: sum.splits)

lemma nextStudentId_registerForCourse:
  "nextStudentId (snd (registerForCourse ums sid cid now)) = nextStudentId ums"
  by (simp add: registerForCourse_def split: option.splits)

lemma nextStudentId_setGrade:
  "nextStudentId (snd (setGrade ums sid cid g now)) = nextStudentId ums"
  by (simp add: setGrade_def Let_def split: option.splits)

lemma nextStudentId_updateStudentStatus:
  "nextStudentId (snd (updateStudentStatus ums sid st)) = nextStudentId ums"
  by (simp add: updateStudentStatus_def split: option.splits)

lemma calls_Cons:
  "calls ums (c # cs) =
     (fst (do_call ums c) # fst (calls (snd (do_call ums c)) cs),
      snd (calls (snd (do_call ums c)) cs))"
  by (simp split: prod.splits)

lemma returned_ids:
  "map Student.id (returned_students (fst (calls ums cs))) =
     map (\<lambda>k. nextStudentId ums + int k) [0..<length (enroll_arguments cs)]"
proof (induction cs arbitrary: ums)
  case Nil
  show ?case by simp
next
  case (Cons c cs)
  show ?case
  proof (cases c)
    case (EnrollStudent d)
    have "map (\<lambda>k. nextStudentId ums + int k) [0..<Suc (length (enroll_arguments cs))]
          = nextStudentId ums # map (\<lambda>k. nextStudentId ums + 1 + int k) [0..<length (enroll_arguments cs)]"
      by (simp only: upt_conv_Cons zero_less_Suc map_Suc_upt [symmetric] list.map map_map)
         (simp add: comp_def)
    with EnrollStudent show ?thesis
      unfolding calls_Cons by (simp add: Cons.IH enrollStudent_eq id_extend)
  next
    case (RegisterForCourse sid cid now)
    then show ?thesis
      unfolding calls_Cons
      by (simp add: Cons.IH returned_students_observe snd_observe nextStudentId_registerForCourse)
  next
    case (SetGrade sid cid g now)
    then show ?thesis
      unfolding calls_Cons
      by (simp add: Cons.IH returned_students_observe snd_observe nextStudentId_setGrade)
  next
    case (UpdateStudentStatus sid st)
    then show ?thesis
      unfolding calls_Cons
      by (simp add: Cons.IH returned_students_observe snd_observe nextStudentId_updateStudentStatus)
  next
    case (PushCourse course)
    then show ?thesis
      unfolding calls_Cons by (simp add: Cons.IH)
  qed
qed

lemma returned_data:
  "map StudentWithoutId.truncate (returned_students (fst (calls ums cs))) = enroll_arguments cs"
proof (induction cs arbitrary: ums)
  case Nil
  show ?case by simp
next
  case (Cons c cs)
  show ?case
    unfolding calls_Cons
    by (cases c)
       (simp_all add: Cons.IH returned_students_observe enrollStudent_eq truncate_extend)
qed

lemma sorted_wrt_less_shift:
  "sorted_wrt (<) (map (\<lambda>k. a + int k) [0..<n])"
  by (simp add: sorted_wrt_map sorted_wrt_iff_nth_less)

subsection \<open>Registration\<close>

lemma registerForCourse_success:
  assumes "find (\<lambda>c. Course.id c = cid) (courses ums) = Some course"
      and "find (\<lambda>s. Student.id s = sid) (students ums) = Some student"
      and "Course.faculty course = StudentWithoutId.faculty student"
      and "int (registrations ums cid) < maxStudents course"
  shows "registerForCourse ums sid cid now =
           (Inr (), ums\<lparr>grades := grades ums @
              [\<lparr>studentId = sid, courseId = cid, grade = None, date = now,
                semester = Course.semester course\<rparr>]\<rparr>)"
  using assms by (simp add: registerForCourse_def registrations_def)

lemma registerForCourse_full:
  assumes "find (\<lambda>c. Course.id c = cid) (courses ums) = Some course"
      and "find (\<lambda>s. Student.id s = sid) (students ums) = Some student"
      and "Course.faculty course = StudentWithoutId.faculty student"
      and "maxStudents course \<le> int (registrations ums cid)"
  shows "registerForCourse ums sid cid now = (Inl CourseFull, ums)"
  using assms by (simp add: registerForCourse_def registrations_def CourseFull_def)

lemma CourseFull_iff_capacity:
  assumes "find (\<lambda>c. Course.id c = cid) (courses ums) = Some course"
      and "find (\<lambda>s. Student.id s = sid) (students ums) = Some student"
      and "Course.faculty course = StudentWithoutId.faculty student"
  shows "fst (registerForCourse ums sid cid now) = Inl CourseFull
           \<longleftrightarrow> maxStudents course \<le> int (registrations ums cid)"
proof (cases "maxStudents course \<le> int (registrations ums cid)")
  case True
  with assms show ?thesis by (simp add: registerForCourse_full)
next
  case False
  with assms show ?thesis by (simp add: registerForCourse_success)
qed

lemma registrations_append:
  "registrations (ums\<lparr>grades := grades ums @ [r]\<rparr>) cid
     = registrations ums cid + (if courseId r = cid then 1 else 0)"
  by (simp add: registrations_def)

lemma calls_registrations:
  assumes "find (\<lambda>c. Course.id c = cid) (courses ums) = Some course"
      and "\<forall>r \<in> set reqs. eligible ums course (fst r)"
      and "registrations ums cid = m"
  shows "fst (calls ums (map (\<lambda>r. RegisterForCourse (fst r) cid (snd r)) reqs)) =
           map (\<lambda>k. if int (m + k) < maxStudents course then Returned else Thrown CourseFull)
             [0..<length reqs]"
  using assms
proof (induction reqs arbitrary: ums m)
  case Nil
  show ?case by simp
next
  case (Cons r reqs)
  let ?f = "\<lambda>m k. if int (m + k) < maxStudents course then Returned else Thrown CourseFull"
  from Cons.prems(2) obtain student where
    st: "find (\<lambda>s. Student.id s = fst r) (students ums) = Some student"
        "Course.faculty course = StudentWithoutId.faculty student"
    by (auto simp: eligible_def)
  have up: "[0..<length (r # reqs)] = 0 # map Suc [0..<length reqs]"
    by (simp add: upt_conv_Cons map_Suc_upt del: upt_Suc)
  show ?case
  proof (cases "int m < maxStudents course")
    case True
    let ?ums1 = "ums\<lparr>grades := grades ums @
              [\<lparr>studentId = fst r, courseId = cid, grade = None, date = snd r,
                semester = Course.semester course\<rparr>]\<rparr>"
    from True Cons.prems(3) have
      reg: "registerForCourse ums (fst r) cid (snd r) = (Inr (), ?ums1)"
      by (simp add: registerForCourse_success [OF Cons.prems(1) st])
    have "fst (calls ?ums1 (map (\<lambda>r. RegisterForCourse (fst r) cid (snd r)) reqs)) =
            map (?f (Suc m)) [0..<length reqs]"
    proof (rule Cons.IH)
      show "find (\<lambda>c. Course.id c = cid) (courses ?ums1) = Some course"
        using Cons.prems(1) by simp
      show "\<forall>r \<in> set reqs. eligible ?ums1 course (fst r)"
        using Cons.prems(2) by (simp add: eligible_def)
      show "registrations ?ums1 cid = Suc m"
        using Cons.prems(3) by (simp add: registrations_append)
    qed
    with True reg show ?thesis
      unfolding up list.map calls_Cons
      by (simp add: observe_def comp_def ac_simps del: calls.simps)
  next
    case False
    from False Cons.prems(3) have
      reg: "registerForCourse ums (fst r) cid (snd r) = (Inl CourseFull, ums)"
      by (simp add: registerForCourse_full [OF Cons.prems(1) st])
    have "fst (calls ums (map (\<lambda>r. RegisterForCourse (fst r) cid (snd r)) reqs)) =
            map (?f m) [0..<length reqs]"
      using Cons.prems by (intro Cons.IH) simp_all
    with False reg show ?thesis
      unfolding up list.map calls_Cons
      by (simp add: observe_def comp_def del: calls.simps)
  qed
qed

lemma registerForCourse_Inr_state:
  assumes "find (\<lambda>c. Course.id c = cid) (courses ums) = Some course"
      and "registerForCourse ums sid cid now = (Inr (), ums1)"
  shows "ums1 = ums\<lparr>grades := grades ums @
              [\<lparr>studentId = sid, courseId = cid, grade = None, date = now,
                semester = Course.semester course\<rparr>]\<rparr>"
  using assms by (auto simp: registerForCourse_def split: option.splits if_splits)

subsection \<open>States that differ in the status of students\<close>





subsection \<open>The states of the script\<close>

lemma student1_eq:
  "student1 =
     \<lparr>fullName = ''Ivan Ivanov'', faculty = Computer_Science, year = 1, status = Active,
      enrollmentDate = 1693526400000, groupNumber = ''CS-101'', Student.id = 1\<rparr>"
  by (simp add: student1_def new_UniversityManagementSystem_def enrollStudent_def Let_def
      student1_data_def StudentWithoutId.defs Student.defs)

lemma student2_eq:
  "student2 =
     \<lparr>fullName = ''Maria Petrenko'', faculty = Economics, year = 2, status = Active,
      enrollmentDate = 1661990400000, groupNumber = ''ECO-201'', Student.id = 2\<rparr>"
  by (simp add: student2_def new_UniversityManagementSystem_def enrollStudent_def Let_def
      student2_data_def StudentWithoutId.defs Student.defs)

lemma script_seeded_eq:
  "script_seeded =
     \<lparr>students = [student1, student2], courses = [course1, course2], grades = [],
      nextStudentId = 3, nextCourseId = 1\<rparr>"
  by (simp add: script_seeded_def new_UniversityManagementSystem_def enrollStudent_def Let_def
      student1_eq student2_eq student1_data_def student2_data_def
      StudentWithoutId.defs Student.defs)

lemma script_registered_eq:
  "script_registered =
     script_seeded\<lparr>grades :=
       [\<lparr>studentId = 1, courseId = 1, grade = None, date = 1000, semester = First\<rparr>,
        \<lparr>studentId = 2, courseId = 2, grade = None, date = 2000, semester = Second\<rparr>]\<rparr>"
  by (simp add: script_registered_def script_seeded_eq registerForCourse_def observe_def
      student1_eq student2_eq course1_def course2_def)

lemma script_graded_eq:
  "script_graded =
     script_seeded\<lparr>grades :=
       [\<lparr>studentId = 1, courseId = 1, grade = Some Excellent, date = 3000, semester = First\<rparr>,
        \<lparr>studentId = 2, courseId = 2, grade = Some Good, date = 4000, semester = Second\<rparr>]\<rparr>"
  by (simp add: script_graded_def script_registered_eq setGrade_def observe_def)

lemma script_second_grade_eq:
  "script_second_grade =
     script_seeded\<lparr>courses := [course1, course2, course3], grades :=
       [\<lparr>studentId = 1, courseId = 1, grade = Some Excellent, date = 3000, semester = First\<rparr>,
        \<lparr>studentId = 2, courseId = 2, grade = Some Good, date = 4000, semester = Second\<rparr>,
        \<lparr>studentId = 1, courseId = 3, grade = Some Good, date = 6000, semester = Second\<rparr>]\<rparr>"
  by (simp add: script_second_grade_def script_graded_eq script_seeded_eq
      registerForCourse_def setGrade_def observe_def
      student1_eq student2_eq course1_def course2_def course3_def)

lemma script_three_grades_eq:
  "script_three_grades =
     script_seeded\<lparr>courses := [course1, course2, course3, course4], grades :=
       [\<lparr>studentId = 1, courseId = 1, grade = Some Excellent, date = 3000, semester = First\<rparr>,
        \<lparr>studentId = 2, courseId = 2, grade = Some Good, date = 4000, semester = Second\<rparr>,
        \<lparr>studentId = 1, courseId = 3, grade = Some Excellent, date = 6000, semester = Second\<rparr>,
        \<lparr>studentId = 1, courseId = 4, grade = Some Good, date = 6100, semester = First\<rparr>]\<rparr>"
  by (simp add: script_three_grades_def script_graded_eq script_seeded_eq
      registerForCourse_def setGrade_def observe_def
      student1_eq student2_eq course1_def course2_def course3_def course4_def)

lemma script_expelled_eq:
  "script_expelled =
     script_registered\<lparr>students := [student1\<lparr>status := Expelled\<rparr>, student2]\<rparr>"
  by (simp add: script_expelled_def script_registered_eq script_seeded_eq
      updateStudentStatus_def observe_def student1_eq student2_eq)

section \<open>Registration: the faculty check\<close>

text \<open>
  Claim C7.  In every state in which both the course and the student are found,
  \<open>registerForCourse\<close> throws the faculty-mismatch error whenever their faculties
  differ, and leaves the object as it was.  Nothing is assumed about the number of
  registrations of the course: the faculty check comes before the capacity check.
\<close>

theorem registerForCourse_faculty_mismatch:
  assumes "find (\<lambda>c. Course.id c = cid) (courses ums) = Some course"
      and "find (\<lambda>s. Student.id s = sid) (students ums) = Some student"
      and "Course.faculty course \<noteq> StudentWithoutId.faculty student"
  shows "registerForCourse ums sid cid now = (Inl FacultyMismatch, ums)"
  using assms by (simp add: registerForCourse_def FacultyMismatch_def)

text \<open>
  After the script's registrations course 2 (Economics, capacity 1) is full; registering
  student 1 (Computer Science) for it is refused for the faculty, not for the capacity.
\<close>

theorem registerForCourse_faculty_mismatch_witness:
  "find (\<lambda>c. Course.id c = 2) (courses script_registered) = Some course2 \<and>
   find (\<lambda>s. Student.id s = 1) (students script_registered) = Some student1 \<and>
   Course.faculty course2 \<noteq> StudentWithoutId.faculty student1 \<and>
   maxStudents course2 \<le> int (registrations script_registered 2) \<and>
   registerForCourse script_registered 1 2 5000 = (Inl FacultyMismatch, script_registered)"
proof -
  have c: "find (\<lambda>c. Course.id c = 2) (courses script_registered) = Some course2"
    by (simp add: script_registered_eq script_seeded_eq course1_def course2_def)
  have s: "find (\<lambda>s. Student.id s = 1) (students script_registered) = Some student1"
    by (simp add: script_registered_eq script_seeded_eq student1_eq)
  have f: "Course.faculty course2 \<noteq> StudentWithoutId.faculty student1"
    by (simp add: course2_def student1_eq)
  have m: "maxStudents course2 \<le> int (registrations script_registered 2)"
    by (simp add: registrations_def script_registered_eq course2_def)
  from registerForCourse_faculty_mismatch [OF c s f, of 5000] c s f m show ?thesis
    by simp
qed

section \<open>A failing call changes nothing\<close>

text \<open>
  Claim C3.  Whenever \<open>registerForCourse\<close>, \<open>setGrade\<close> or
  \<open>updateStudentStatus\<close> throws, the object after the call (students, courses, grades
  and both id counters) is the object before it: every throw of the source stands before
  the first write.
\<close>

theorem failure_leaves_state_unchanged:
  "(fst (registerForCourse ums1 sid1 cid1 now1) = Inl e1 \<longrightarrow>
      snd (registerForCourse ums1 sid1 cid1 now1) = ums1) \<and>
   (fst (setGrade ums2 sid2 cid2 g2 now2) = Inl e2 \<longrightarrow>
      snd (setGrade ums2 sid2 cid2 g2 now2) = ums2) \<and>
   (fst (updateStudentStatus ums3 sid3 st3) = Inl e3 \<longrightarrow>
      snd (updateStudentStatus ums3 sid3 st3) = ums3)"
  by (auto simp: registerForCourse_def setGrade_def updateStudentStatus_def Let_def
      split: option.splits if_splits)

text \<open>
  Three failing calls of the script's states: a registration for the full course 2, a
  grade before any registration, a status update for an id that no student has.
\<close>

theorem failure_leaves_state_unchanged_witness:
  "fst (registerForCourse script_registered 2 2 5000) = Inl CourseFull \<and>
   snd (registerForCourse script_registered 2 2 5000) = script_registered \<and>
   fst (setGrade script_seeded 1 1 Excellent 3000) = Inl NotRegistered \<and>
   snd (setGrade script_seeded 1 1 Excellent 3000) = script_seeded \<and>
   fst (updateStudentStatus script_seeded 7 Graduated) = Inl (Error ''Invalid student ID.'') \<and>
   snd (updateStudentStatus script_seeded 7 Graduated) = script_seeded"
proof -
  have r: "fst (registerForCourse script_registered 2 2 5000) = Inl CourseFull"
    by (simp add: registerForCourse_def script_registered_eq script_seeded_eq CourseFull_def
        student1_eq student2_eq course1_def course2_def)
  have g: "fst (setGrade script_seeded 1 1 Excellent 3000) = Inl NotRegistered"
    by (simp add: setGrade_def script_seeded_eq NotRegistered_def)
  have u: "fst (updateStudentStatus script_seeded 7 Graduated)
             = Inl (Error ''Invalid student ID.'')"
    by (simp add: updateStudentStatus_def script_seeded_eq student1_eq student2_eq)
  from failure_leaves_state_unchanged
         [of script_registered 2 2 5000 CourseFull
             script_seeded 1 1 Excellent 3000 NotRegistered
             script_seeded 7 Graduated "Error ''Invalid student ID.''"]
       r g u
  show ?thesis by blast
qed

section \<open>Averages and top students\<close>

text \<open>
  Claim C4, as the code has it.  For every student id and every state,
  \<open>calculateAverageGrade\<close> returns 0 when the student has no record with a non-null
  grade.  Otherwise it returns the arithmetic mean of the numbers of the student's
  non-null grades rounded to the nearest double: a number between 2 and 5 that is at most
  \<open>2 ^ -51\<close> away from the mean, and the mean itself whenever the mean is a multiple
  of \<open>2 ^ -50\<close>; the grades 5 and 4 give 4.5.  The result is never \<open>NaN\<close>, and the
  method has no throw.
\<close>

theorem calculateAverageGrade_rounded_mean:
  "(graded_values ums sid = [] \<longrightarrow> calculateAverageGrade ums sid = Num 0) \<and>
   (graded_values ums sid \<noteq> [] \<longrightarrow>
      calculateAverageGrade ums sid = round_double (arithmetic_mean (graded_values ums sid)) \<and>
      (\<exists>r. calculateAverageGrade ums sid = Num r \<and> 2 \<le> r \<and> r \<le> 5 \<and>
           \<bar>r - arithmetic_mean (graded_values ums sid)\<bar> \<le> 1 / 2 ^ 51) \<and>
      (\<forall>m. arithmetic_mean (graded_values ums sid) * 2 ^ 50 = of_int m \<longrightarrow>
           calculateAverageGrade ums sid = Num (arithmetic_mean (graded_values ums sid)))) \<and>
   calculateAverageGrade ums sid \<noteq> NaN \<and>
   (graded_values ums sid = [5, 4] \<longrightarrow> calculateAverageGrade ums sid = Num (9 / 2))"
proof (cases "graded_values ums sid = []")
  case True
  then show ?thesis by (simp add: calculateAverageGrade_eq)
next
  case False
  let ?mean = "arithmetic_mean (graded_values ums sid)"
  have eq: "calculateAverageGrade ums sid = round_double ?mean"
    using False by (simp add: calculateAverageGrade_eq)
  have range: "2 \<le> ?mean" "?mean \<le> 5"
    using False by (rule arithmetic_mean_range)+
  then have near: "\<exists>r. round_double ?mean = Num r \<and> 2 \<le> r \<and> r \<le> 5 \<and>
                     \<bar>r - ?mean\<bar> \<le> 1 / 2 ^ 51"
    by (rule round_double_grade_range)
  have exact: "round_double ?mean = Num ?mean" if "?mean * 2 ^ 50 = of_int m" for m
    using range that by (rule round_double_grade_exact)
  have example: "round_double ?mean = Num (9 / 2)" if "graded_values ums sid = [5, 4]"
    using that by (simp add: arithmetic_mean_def round_double_examples)
  from near have "round_double ?mean \<noteq> NaN" by auto
  with False near exact example show ?thesis
    unfolding eq by blast
qed

text \<open>
  Student 1 has no grade right after the registrations, the grades 5 and 4 once the
  script is continued by a second course, and the grades 5, 5 and 4 once it is continued
  by two courses: the mean 14/3 is then returned as the double next to it.
\<close>

theorem calculateAverageGrade_rounded_mean_witness:
  "graded_values script_registered 1 = [] \<and>
   calculateAverageGrade script_registered 1 = Num 0 \<and>
   graded_values script_second_grade 1 = [5, 4] \<and>
   arithmetic_mean [5, 4] * 2 ^ 50 = of_int (9 * 2 ^ 49) \<and>
   calculateAverageGrade script_second_grade 1 = Num (9 / 2) \<and>
   graded_values script_three_grades 1 = [5, 5, 4] \<and>
   calculateAverageGrade script_three_grades 1 = round_double (14 / 3) \<and>
   calculateAverageGrade script_three_grades 1 \<noteq> NaN"
proof -
  have a: "graded_values script_registered 1 = []"
    by (simp add: graded_values_def script_registered_eq script_seeded_eq)
  have b: "graded_values script_second_grade 1 = [5, 4]"
    by (simp add: graded_values_def script_second_grade_eq script_seeded_eq)
  have c: "graded_values script_three_grades 1 = [5, 5, 4]"
    by (simp add: graded_values_def script_three_grades_eq script_seeded_eq)
  have m: "arithmetic_mean [5, 4] * 2 ^ 50 = of_int (9 * 2 ^ 49)"
          "arithmetic_mean [5, 4] = 9 / 2" "arithmetic_mean [5, 5, 4] = 14 / 3"
    by (simp_all add: arithmetic_mean_def)
  from calculateAverageGrade_rounded_mean [of script_registered 1] a
  have 1: "calculateAverageGrade script_registered 1 = Num 0"
    by blast
  from calculateAverageGrade_rounded_mean [of script_second_grade 1] m(1)
  have 2: "calculateAverageGrade script_second_grade 1 = Num (9 / 2)"
    unfolding b m(2) by blast
  from calculateAverageGrade_rounded_mean [of script_three_grades 1]
  have 3: "calculateAverageGrade script_three_grades 1 = round_double (14 / 3) \<and>
           calculateAverageGrade script_three_grades 1 \<noteq> NaN"
    unfolding c m(3) by blast
  from a b c m(1) 1 2 3 show ?thesis by blast
qed

text \<open>
  As the claim is written, with the arithmetic mean itself as the result, it fails: for
  the grades 5, 5 and 4 the mean is 14/3, which is no double, and the method returns
  \<open>5254199565265579 / 2 ^ 50\<close>.
\<close>

theorem calculateAverageGrade_exact_mean_counterexample:
  "graded_values script_three_grades 1 = [5, 5, 4] \<and>
   arithmetic_mean (graded_values script_three_grades 1) = 14 / 3 \<and>
   calculateAverageGrade script_three_grades 1 = Num (5254199565265579 / 2 ^ 50) \<and>
   calculateAverageGrade script_three_grades 1
     \<noteq> Num (arithmetic_mean (graded_values script_three_grades 1))"
proof -
  have c: "graded_values script_three_grades 1 = [5, 5, 4]"
    by (simp add: graded_values_def script_three_grades_eq script_seeded_eq)
  have m: "arithmetic_mean [5, 5, 4] = 14 / 3"
    by (simp add: arithmetic_mean_def)
  have r: "calculateAverageGrade script_three_grades 1 = Num (5254199565265579 / 2 ^ 50)"
    by (simp only: calculateAverageGrade_eq c m round_double_14_3) simp
  have "(5254199565265579 / 2 ^ 50 :: rat) \<noteq> 14 / 3" by simp
  with c m r show ?thesis by simp
qed

text \<open>
  Claim C1.  For every faculty, \<open>getTopStudentsByFaculty\<close> returns exactly the students
  of that faculty whose \<open>calculateAverageGrade\<close> is at least 4 (\<open>GradeEnum.Excellent - 1\<close>),
  in the order of the student collection.  The bound is inclusive: a student of the
  faculty whose average is exactly 4 is returned, and a student whose average is 0 is not.
\<close>

theorem getTopStudentsByFaculty_threshold:
  "getTopStudentsByFaculty ums f =
     filter (\<lambda>s. StudentWithoutId.faculty s = f \<and>
                 js_ge (calculateAverageGrade ums (Student.id s)) 4) (students ums) \<and>
   (s4 \<in> set (students ums) \<and> StudentWithoutId.faculty s4 = f \<and>
      calculateAverageGrade ums (Student.id s4) = Num 4
      \<longrightarrow> s4 \<in> set (getTopStudentsByFaculty ums f)) \<and>
   (calculateAverageGrade ums (Student.id s0) = Num 0
      \<longrightarrow> s0 \<notin> set (getTopStudentsByFaculty ums f))"
  by (simp add: getTopStudentsByFaculty_eq)

text \<open>
  The end of the script: student 2 (Economics) has the average 4 and is the top student
  of Economics, student 1 has 5; before the grades student 2 has the average 0 and is no
  top student.
\<close>

theorem getTopStudentsByFaculty_threshold_witness:
  "calculateAverageGrade script_graded (Student.id student2) = Num 4 \<and>
   calculateAverageGrade script_graded (Student.id student1) = Num 5 \<and>
   getTopStudentsByFaculty script_graded Economics = [student2] \<and>
   getTopStudentsByFaculty script_graded Computer_Science = [student1] \<and>
   calculateAverageGrade script_registered (Student.id student2) = Num 0 \<and>
   student2 \<notin> set (getTopStudentsByFaculty script_registered Economics)"
proof -
  have "graded_values script_graded (Student.id student2) = [4]"
    by (simp add: graded_values_def script_graded_eq script_seeded_eq student2_eq)
  then have a: "calculateAverageGrade script_graded (Student.id student2) = Num 4"
    by (simp add: calculateAverageGrade_eq arithmetic_mean_def round_double_examples)
  have "graded_values script_graded (Student.id student1) = [5]"
    by (simp add: graded_values_def script_graded_eq script_seeded_eq student1_eq)
  then have b: "calculateAverageGrade script_graded (Student.id student1) = Num 5"
    by (simp add: calculateAverageGrade_eq arithmetic_mean_def round_double_examples)
  have c: "calculateAverageGrade script_registered (Student.id student2) = Num 0"
    by (simp add: calculateAverageGrade_def script_registered_eq script_seeded_eq student2_eq)
  have f: "StudentWithoutId.faculty student1 = Computer_Science"
          "StudentWithoutId.faculty student2 = Economics"
    by (simp_all add: student1_eq student2_eq)
  have s: "students script_graded = [student1, student2]"
    by (simp add: script_graded_eq script_seeded_eq)
  from getTopStudentsByFaculty_threshold [of script_graded Economics student2 student1]
       getTopStudentsByFaculty_threshold [of script_graded Computer_Science student1 student2]
       getTopStudentsByFaculty_threshold [of script_registered Economics student2 student2]
       a b c f s
  show ?thesis by simp
qed

section \<open>Grading\<close>

text \<open>
  Claim C5.  For every pair of ids and every state, \<open>setGrade\<close> throws the
  not-registered error exactly when no grade record carries both ids.  When some record
  does, and \<open>i\<close> is the position of the first one (\<open>findRef_Some_iff\<close>), the call
  succeeds and changes that record alone: its grade becomes the supplied value and its
  date the current time.  A second call for the same pair succeeds as well and
  overwrites the same record with its own grade and time.
\<close>

theorem setGrade_overwrites_first_match:
  "(fst (setGrade ums sid cid g now) = Inl NotRegistered \<longleftrightarrow>
      \<not> (\<exists>r \<in> set (grades ums). studentId r = sid \<and> courseId r = cid)) \<and>
   (findRef (\<lambda>r. studentId r = sid \<and> courseId r = cid) (grades ums) = Some i \<longrightarrow>
      setGrade ums sid cid g now =
        (Inr (), ums\<lparr>grades :=
           (grades ums)[i := (grades ums ! i)\<lparr>grade := Some g, date := now\<rparr>]\<rparr>) \<and>
      setGrade (snd (setGrade ums sid cid g now)) sid cid g' now' =
        (Inr (), ums\<lparr>grades :=
           (grades ums)[i := (grades ums ! i)\<lparr>grade := Some g', date := now'\<rparr>]\<rparr>))"
proof -
  let ?P = "\<lambda>r. studentId r = sid \<and> courseId r = cid"
  have "fst (setGrade ums sid cid g now) = Inl NotRegistered \<longleftrightarrow>
          \<not> (\<exists>r \<in> set (grades ums). ?P r)"
  proof (cases "findRef ?P (grades ums)")
    case None
    then show ?thesis by (simp add: setGrade_not_found findRef_None_iff)
  next
    case (Some k)
    then have "\<exists>r \<in> set (grades ums). ?P r"
      using findRef_None_iff [of ?P "grades ums"] by auto
    with Some show ?thesis by (simp add: setGrade_found)
  qed
  moreover have "findRef ?P (grades ums) = Some i \<longrightarrow>
      setGrade ums sid cid g now =
        (Inr (), ums\<lparr>grades :=
           (grades ums)[i := (grades ums ! i)\<lparr>grade := Some g, date := now\<rparr>]\<rparr>) \<and>
      setGrade (snd (setGrade ums sid cid g now)) sid cid g' now' =
        (Inr (), ums\<lparr>grades :=
           (grades ums)[i := (grades ums ! i)\<lparr>grade := Some g', date := now'\<rparr>]\<rparr>)"
  proof
    assume h: "findRef ?P (grades ums) = Some i"
    show "setGrade ums sid cid g now =
        (Inr (), ums\<lparr>grades :=
           (grades ums)[i := (grades ums ! i)\<lparr>grade := Some g, date := now\<rparr>]\<rparr>) \<and>
      setGrade (snd (setGrade ums sid cid g now)) sid cid g' now' =
        (Inr (), ums\<lparr>grades :=
           (grades ums)[i := (grades ums ! i)\<lparr>grade := Some g', date := now'\<rparr>]\<rparr>)"
      unfolding setGrade_twice [OF h] by (simp only: setGrade_found [OF h])
  qed
  ultimately show ?thesis by blast
qed


text \<open>
  After the script's registrations, student 1 is graded Good and then Excellent in
  course 1; grading student 1 in course 2, for which only student 2 is registered, fails.
\<close>

theorem setGrade_overwrites_first_match_witness:
  "findRef (\<lambda>r. studentId r = 1 \<and> courseId r = 1) (grades script_registered) = Some 0 \<and>
   setGrade script_registered 1 1 Good 3000 =
     (Inr (), script_registered\<lparr>grades :=
        [\<lparr>studentId = 1, courseId = 1, grade = Some Good, date = 3000, semester = First\<rparr>,
         \<lparr>studentId = 2, courseId = 2, grade = None, date = 2000, semester = Second\<rparr>]\<rparr>) \<and>
   setGrade (snd (setGrade script_registered 1 1 Good 3000)) 1 1 Excellent 3500 =
     (Inr (), script_registered\<lparr>grades :=
        [\<lparr>studentId = 1, courseId = 1, grade = Some Excellent, date = 3500, semester = First\<rparr>,
         \<lparr>studentId = 2, courseId = 2, grade = None, date = 2000, semester = Second\<rparr>]\<rparr>) \<and>
   fst (setGrade script_registered 1 2 Good 3000) = Inl NotRegistered"
proof -
  have f: "findRef (\<lambda>r. studentId r = 1 \<and> courseId r = 1) (grades script_registered) = Some 0"
    by (simp add: script_registered_eq)
  have n: "\<not> (\<exists>r \<in> set (grades script_registered). studentId r = 1 \<and> courseId r = 2)"
    by (simp add: script_registered_eq)
  have u: "(grades script_registered)[0 := (grades script_registered ! 0)\<lparr>grade := Some v, date := t\<rparr>]
      = [\<lparr>studentId = 1, courseId = 1, grade = Some v, date = t, semester = First\<rparr>,
         \<lparr>studentId = 2, courseId = 2, grade = None, date = 2000, semester = Second\<rparr>]" for v t
    by (simp add: script_registered_eq)
  from setGrade_overwrites_first_match [of script_registered 1 1 Good 3000 0 Excellent 3500] f
  have "setGrade script_registered 1 1 Good 3000 =
          (Inr (), script_registered\<lparr>grades := (grades script_registered)
             [0 := (grades script_registered ! 0)\<lparr>grade := Some Good, date := 3000\<rparr>]\<rparr>) \<and>
        setGrade (snd (setGrade script_registered 1 1 Good 3000)) 1 1 Excellent 3500 =
          (Inr (), script_registered\<lparr>grades := (grades script_registered)
             [0 := (grades script_registered ! 0)\<lparr>grade := Some Excellent, date := 3500\<rparr>]\<rparr>)"
    by blast
  then have a: "setGrade script_registered 1 1 Good 3000 =
     (Inr (), script_registered\<lparr>grades :=
        [\<lparr>studentId = 1, courseId = 1, grade = Some Good, date = 3000, semester = First\<rparr>,
         \<lparr>studentId = 2, courseId = 2, grade = None, date = 2000, semester = Second\<rparr>]\<rparr>) \<and>
   setGrade (snd (setGrade script_registered 1 1 Good 3000)) 1 1 Excellent 3500 =
     (Inr (), script_registered\<lparr>grades :=
        [\<lparr>studentId = 1, courseId = 1, grade = Some Excellent, date = 3500, semester = First\<rparr>,
         \<lparr>studentId = 2, courseId = 2, grade = None, date = 2000, semester = Second\<rparr>]\<rparr>)"
    unfolding u .
  from setGrade_overwrites_first_match [of script_registered 1 2 Good 3000] n
  have b: "fst (setGrade script_registered 1 2 Good 3000) = Inl NotRegistered"
    by blast
  from f a b show ?thesis by blast
qed

section \<open>Status transitions\<close>

text \<open>
  Claim C6.  For a student that exists (\<open>i\<close> is the position of the first student
  with the id), \<open>updateStudentStatus\<close> throws the illegal-transition error exactly
  when the student's status is Expelled and the new status is not Academic_Leave.  In
  every other case, whatever the current and the new status are, the call succeeds and
  writes the new status into that student, changing nothing else.
\<close>

theorem updateStudentStatus_transition:
  assumes "findRef (\<lambda>s. Student.id s = sid) (students ums) = Some i"
  shows "(fst (updateStudentStatus ums sid newStatus) = Inl IllegalTransition \<longleftrightarrow>
            status (students ums ! i) = Expelled \<and> newStatus \<noteq> Academic_Leave) \<and>
         (\<not> (status (students ums ! i) = Expelled \<and> newStatus \<noteq> Academic_Leave) \<longrightarrow>
            updateStudentStatus ums sid newStatus =
              (Inr (), ums\<lparr>students :=
                 (students ums)[i := (students ums ! i)\<lparr>status := newStatus\<rparr>]\<rparr>))"
  using assms by (simp add: updateStudentStatus_def IllegalTransition_def)


text \<open>
  With student 1 expelled: the transitions to Active, Graduated and Expelled fail, the
  one to Academic_Leave succeeds; student 2, who is Active, becomes Graduated.
\<close>

theorem updateStudentStatus_transition_witness:
  "findRef (\<lambda>s. Student.id s = 1) (students script_expelled) = Some 0 \<and>
   status (students script_expelled ! 0) = Expelled \<and>
   fst (updateStudentStatus script_expelled 1 Active) = Inl IllegalTransition \<and>
   fst (updateStudentStatus script_expelled 1 Graduated) = Inl IllegalTransition \<and>
   fst (updateStudentStatus script_expelled 1 Expelled) = Inl IllegalTransition \<and>
   updateStudentStatus script_expelled 1 Academic_Leave =
     (Inr (), script_expelled\<lparr>students := [student1\<lparr>status := Academic_Leave\<rparr>, student2]\<rparr>) \<and>
   findRef (\<lambda>s. Student.id s = 2) (students script_expelled) = Some 1 \<and>
   status (students script_expelled ! 1) = Active \<and>
   updateStudentStatus script_expelled 2 Graduated =
     (Inr (), script_expelled\<lparr>students :=
        [student1\<lparr>status := Expelled\<rparr>, student2\<lparr>status := Graduated\<rparr>]\<rparr>)"
proof -
  have a: "findRef (\<lambda>s. Student.id s = 1) (students script_expelled) = Some 0"
    by (simp add: script_expelled_eq student1_eq)
  have b: "findRef (\<lambda>s. Student.id s = 2) (students script_expelled) = Some 1"
    by (simp add: script_expelled_eq student1_eq student2_eq)
  have s: "students script_expelled = [student1\<lparr>status := Expelled\<rparr>, student2]"
    by (simp add: script_expelled_eq)
  have t: "status student2 = Active" by (simp add: student2_eq)
  from updateStudentStatus_transition [OF a, of Active]
       updateStudentStatus_transition [OF a, of Graduated]
       updateStudentStatus_transition [OF a, of Expelled]
       updateStudentStatus_transition [OF a, of Academic_Leave]
       updateStudentStatus_transition [OF b, of Graduated] a b s t
  show ?thesis by simp
qed

section \<open>Enrolment\<close>

text \<open>
  Claim C8.  \<open>enrollStudent\<close> has no throw and no test of its argument.  A call
  returns the record it stores: the argument's fields unchanged, with the id taken from
  the counter, which the call increments.  In any sequence of calls on a new object, in
  which the \<open>enrollStudent\<close> calls may be mixed with any other calls, the students
  returned carry the ids 1, 2, 3, ... in this order, one for each \<open>enrollStudent\<close>
  call, and their other fields are the arguments of those calls.  From any state the ids
  returned are strictly increasing, and so without repeats.
\<close>

theorem enrollStudent_sequential_ids:
  "Student.id (fst (enrollStudent ums d)) = nextStudentId ums \<and>
   StudentWithoutId.truncate (fst (enrollStudent ums d)) = d \<and>
   snd (enrollStudent ums d) =
     ums\<lparr>nextStudentId := nextStudentId ums + 1,
         students := students ums @ [fst (enrollStudent ums d)]\<rparr> \<and>
   map Student.id (returned_students (fst (calls new_UniversityManagementSystem cs))) =
     map int [1..<Suc (length (enroll_arguments cs))] \<and>
   map StudentWithoutId.truncate
     (returned_students (fst (calls new_UniversityManagementSystem cs))) = enroll_arguments cs \<and>
   sorted_wrt (<) (map Student.id (returned_students (fst (calls ums cs)))) \<and>
   distinct (map Student.id (returned_students (fst (calls ums cs))))"
proof -
  have "map (\<lambda>k. 1 + int k) [0..<length (enroll_arguments cs)]
        = map int [1..<Suc (length (enroll_arguments cs))]"
    by (simp only: map_Suc_upt [symmetric] One_nat_def map_map) (simp add: comp_def)
  then have a: "map Student.id (returned_students (fst (calls new_UniversityManagementSystem cs))) =
     map int [1..<Suc (length (enroll_arguments cs))]"
    by (simp add: returned_ids new_UniversityManagementSystem_def)
  have s: "sorted_wrt (<) (map Student.id (returned_students (fst (calls ums cs))))"
    unfolding returned_ids by (rule sorted_wrt_less_shift)
  then have t: "distinct (map Student.id (returned_students (fst (calls ums cs))))"
    by (simp add: strict_sorted_iff)
  from a s t show ?thesis
    by (simp add: returned_data enrollStudent_eq id_extend truncate_extend)
qed


text \<open>
  Three enrolments mixed with a push, a registration and a status update return the
  ids 1, 2 and 3.
\<close>

theorem enrollStudent_sequential_ids_witness:
  "returned_students (fst (calls new_UniversityManagementSystem
      [EnrollStudent student1_data, PushCourse course1, RegisterForCourse 1 1 1000,
       EnrollStudent student2_data, UpdateStudentStatus 1 Graduated,
       EnrollStudent student1_data])) = [student1, student2, student1\<lparr>Student.id := 3\<rparr>] \<and>
   map Student.id [student1, student2, student1\<lparr>Student.id := 3\<rparr>] = [1, 2, 3] \<and>
   StudentWithoutId.truncate student2 = student2_data"
proof -
  let ?cs = "[EnrollStudent student1_data, PushCourse course1, RegisterForCourse 1 1 1000,
       EnrollStudent student2_data, UpdateStudentStatus 1 Graduated,
       EnrollStudent student1_data]"
  have r: "returned_students (fst (calls new_UniversityManagementSystem ?cs))
             = [student1, student2, student1\<lparr>Student.id := 3\<rparr>]"
    by (simp add: new_UniversityManagementSystem_def enrollStudent_def Let_def
        registerForCourse_def updateStudentStatus_def observe_def
        student1_eq student2_eq student1_data_def student2_data_def course1_def
        StudentWithoutId.defs Student.defs)
  have u: "[1..<Suc (length (enroll_arguments ?cs))] = [1, 2, 3]"
    by (simp add: upt_rec)
  have e: "enroll_arguments ?cs = [student1_data, student2_data, student1_data]"
    by simp
  from enrollStudent_sequential_ids [of new_UniversityManagementSystem student1_data ?cs]
  have "map Student.id (returned_students (fst (calls new_UniversityManagementSystem ?cs))) =
          map int [1..<Suc (length (enroll_arguments ?cs))] \<and>
        map StudentWithoutId.truncate
          (returned_students (fst (calls new_UniversityManagementSystem ?cs)))
          = enroll_arguments ?cs"
    by blast
  then have "map Student.id [student1, student2, student1\<lparr>Student.id := 3\<rparr>] = [1, 2, 3] \<and>
     map StudentWithoutId.truncate [student1, student2, student1\<lparr>Student.id := 3\<rparr>]
       = [student1_data, student2_data, student1_data]"
    unfolding r u e by simp
  with r show ?thesis by simp
qed

section \<open>Registration: capacity and duplicates\<close>

text \<open>
  Claim C2.  In every state in which the course and the student are found and have the
  same faculty, \<open>registerForCourse\<close> throws the course-full error exactly when the
  number of grade records with the course's id is at least the course's
  \<open>maxStudents\<close>.  And when a course with \<open>maxStudents = n\<close> has no registration,
  a sequence of registrations of eligible students for it succeeds for the first \<open>n\<close>
  calls and throws the course-full error for every later one: the \<open>n\<close>-th
  registration succeeds and the \<open>(n+1)\<close>-th fails.  (A request is a student id with
  the time of the call.)
\<close>

theorem registerForCourse_CourseFull:
  "(find (\<lambda>c. Course.id c = cid) (courses ums) = Some course \<and>
    find (\<lambda>s. Student.id s = sid) (students ums) = Some student \<and>
    Course.faculty course = StudentWithoutId.faculty student \<longrightarrow>
      (fst (registerForCourse ums sid cid now) = Inl CourseFull
         \<longleftrightarrow> maxStudents course \<le> int (registrations ums cid))) \<and>
   (find (\<lambda>c. Course.id c = cid) (courses ums) = Some course \<and>
    (\<forall>r \<in> set reqs. eligible ums course (fst r)) \<and>
    registrations ums cid = 0 \<and> maxStudents course = int n \<longrightarrow>
      fst (calls ums (map (\<lambda>r. RegisterForCourse (fst r) cid (snd r)) reqs)) =
        map (\<lambda>k. if k < n then Returned else Thrown CourseFull) [0..<length reqs])"
  using CourseFull_iff_capacity [of cid ums course sid student now]
        calls_registrations [of cid ums course reqs 0]
  by simp



text \<open>
  Course 2 has capacity 1 and one registration after the script's registrations, so a
  second one is refused; course 1 has capacity 2, so of three registrations the third is
  refused.
\<close>

theorem registerForCourse_CourseFull_witness:
  "find (\<lambda>c. Course.id c = 2) (courses script_registered) = Some course2 \<and>
   find (\<lambda>s. Student.id s = 2) (students script_registered) = Some student2 \<and>
   Course.faculty course2 = StudentWithoutId.faculty student2 \<and>
   maxStudents course2 \<le> int (registrations script_registered 2) \<and>
   fst (registerForCourse script_registered 2 2 5000) = Inl CourseFull \<and>
   find (\<lambda>c. Course.id c = 1) (courses script_seeded) = Some course1 \<and>
   eligible script_seeded course1 1 \<and>
   registrations script_seeded 1 = 0 \<and> maxStudents course1 = 2 \<and>
   fst (calls script_seeded
          [RegisterForCourse 1 1 1000, RegisterForCourse 1 1 1100, RegisterForCourse 1 1 1200])
     = [Returned, Returned, Thrown CourseFull]"
proof -
  have c2: "find (\<lambda>c. Course.id c = 2) (courses script_registered) = Some course2"
    by (simp add: script_registered_eq script_seeded_eq course1_def course2_def)
  have s2: "find (\<lambda>s. Student.id s = 2) (students script_registered) = Some student2"
    by (simp add: script_registered_eq script_seeded_eq student1_eq student2_eq)
  have f2: "Course.faculty course2 = StudentWithoutId.faculty student2"
    by (simp add: course2_def student2_eq)
  have m2: "maxStudents course2 \<le> int (registrations script_registered 2)"
    by (simp add: registrations_def script_registered_eq course2_def)
  have c1: "find (\<lambda>c. Course.id c = 1) (courses script_seeded) = Some course1"
    by (simp add: script_seeded_eq course1_def)
  have e1: "eligible script_seeded course1 1"
    by (simp add: eligible_def script_seeded_eq student1_eq course1_def)
  have r1: "registrations script_seeded 1 = 0"
    by (simp add: registrations_def script_seeded_eq)
  have m1: "maxStudents course1 = int 2"
    by (simp add: course1_def)
  have u: "[0..<length [(1::int, 1000::int), (1, 1100), (1, 1200)]] = [0, 1, 2]"
    by (simp add: upt_rec)
  from registerForCourse_CourseFull
         [of 2 script_registered course2 2 student2 5000 "[]" 0] c2 s2 f2 m2
  have a: "fst (registerForCourse script_registered 2 2 5000) = Inl CourseFull"
    by blast
  from registerForCourse_CourseFull
         [of 1 script_seeded course1 1 student1 0 "[(1, 1000), (1, 1100), (1, 1200)]" 2]
       c1 e1 r1 m1
  have "fst (calls script_seeded
          (map (\<lambda>r. RegisterForCourse (fst r) 1 (snd r)) [(1, 1000), (1, 1100), (1, 1200)]))
        = map (\<lambda>k. if k < 2 then Returned else Thrown CourseFull)
            [0..<length [(1::int, 1000::int), (1, 1100), (1, 1200)]]"
    by simp
  then have b: "fst (calls script_seeded
          [RegisterForCourse 1 1 1000, RegisterForCourse 1 1 1100, RegisterForCourse 1 1 1200])
     = [Returned, Returned, Thrown CourseFull]"
    unfolding u by simp
  from c2 s2 f2 m2 a c1 e1 r1 m1 b show ?thesis by simp
qed

text \<open>
  Claim C9.  When a student and a course exist and share a faculty and a registration of
  the pair has succeeded, a second registration of the same pair is treated like any
  other: its only possible failure is the course-full error, thrown exactly when the
  capacity is reached.  When the capacity is not reached it succeeds and appends a second
  record with the same student id and course id, and the course then has two
  registrations more than before the first call.
\<close>

theorem registerForCourse_duplicate:
  "find (\<lambda>c. Course.id c = cid) (courses ums) = Some course \<and>
   find (\<lambda>s. Student.id s = sid) (students ums) = Some student \<and>
   Course.faculty course = StudentWithoutId.faculty student \<and>
   registerForCourse ums sid cid t1 = (Inr (), ums1) \<longrightarrow>
     (fst (registerForCourse ums1 sid cid t2) = Inl CourseFull
        \<longleftrightarrow> maxStudents course \<le> int (registrations ums1 cid)) \<and>
     (int (registrations ums1 cid) < maxStudents course \<longrightarrow>
        registerForCourse ums1 sid cid t2 =
          (Inr (), ums\<lparr>grades := grades ums @
             [\<lparr>studentId = sid, courseId = cid, grade = None, date = t1,
               semester = Course.semester course\<rparr>,
              \<lparr>studentId = sid, courseId = cid, grade = None, date = t2,
               semester = Course.semester course\<rparr>]\<rparr>) \<and>
        registrations (snd (registerForCourse ums1 sid cid t2)) cid
          = registrations ums cid + 2)"
proof (intro impI, elim conjE)
  assume c: "find (\<lambda>c. Course.id c = cid) (courses ums) = Some course"
     and s: "find (\<lambda>s. Student.id s = sid) (students ums) = Some student"
     and f: "Course.faculty course = StudentWithoutId.faculty student"
     and r: "registerForCourse ums sid cid t1 = (Inr (), ums1)"
  let ?r1 = "\<lparr>studentId = sid, courseId = cid, grade = None, date = t1,
               semester = Course.semester course\<rparr>"
  let ?r2 = "\<lparr>studentId = sid, courseId = cid, grade = None, date = t2,
               semester = Course.semester course\<rparr>"
  have ums1: "ums1 = ums\<lparr>grades := grades ums @ [?r1]\<rparr>"
    using c r by (rule registerForCourse_Inr_state)
  have c1: "find (\<lambda>c. Course.id c = cid) (courses ums1) = Some course"
    and s1: "find (\<lambda>s. Student.id s = sid) (students ums1) = Some student"
    using c s by (simp_all add: ums1)
  have iff: "fst (registerForCourse ums1 sid cid t2) = Inl CourseFull
        \<longleftrightarrow> maxStudents course \<le> int (registrations ums1 cid)"
    using c1 s1 f by (rule CourseFull_iff_capacity)
  have succ: "registerForCourse ums1 sid cid t2 =
          (Inr (), ums\<lparr>grades := grades ums @ [?r1, ?r2]\<rparr>) \<and>
        registrations (snd (registerForCourse ums1 sid cid t2)) cid
          = registrations ums cid + 2"
    if "int (registrations ums1 cid) < maxStudents course"
  proof -
    have "registerForCourse ums1 sid cid t2 = (Inr (), ums1\<lparr>grades := grades ums1 @ [?r2]\<rparr>)"
      using c1 s1 f that by (rule registerForCourse_success)
    then show ?thesis
      by (simp add: ums1 registrations_def)
  qed
  from iff succ
  show "(fst (registerForCourse ums1 sid cid t2) = Inl CourseFull
        \<longleftrightarrow> maxStudents course \<le> int (registrations ums1 cid)) \<and>
     (int (registrations ums1 cid) < maxStudents course \<longrightarrow>
        registerForCourse ums1 sid cid t2 =
          (Inr (), ums\<lparr>grades := grades ums @ [?r1, ?r2]\<rparr>) \<and>
        registrations (snd (registerForCourse ums1 sid cid t2)) cid
          = registrations ums cid + 2)"
    by blast
qed


text \<open>Student 1 is registered twice for course 1, which is then full.\<close>

theorem registerForCourse_duplicate_witness:
  "registerForCourse script_seeded 1 1 1000 =
     (Inr (), script_seeded\<lparr>grades :=
        [\<lparr>studentId = 1, courseId = 1, grade = None, date = 1000, semester = First\<rparr>]\<rparr>) \<and>
   registerForCourse
     (script_seeded\<lparr>grades :=
        [\<lparr>studentId = 1, courseId = 1, grade = None, date = 1000, semester = First\<rparr>]\<rparr>)
     1 1 1100 =
     (Inr (), script_seeded\<lparr>grades :=
        [\<lparr>studentId = 1, courseId = 1, grade = None, date = 1000, semester = First\<rparr>,
         \<lparr>studentId = 1, courseId = 1, grade = None, date = 1100, semester = First\<rparr>]\<rparr>) \<and>
   registrations script_seeded 1 = 0 \<and>
   registrations
     (script_seeded\<lparr>grades :=
        [\<lparr>studentId = 1, courseId = 1, grade = None, date = 1000, semester = First\<rparr>,
         \<lparr>studentId = 1, courseId = 1, grade = None, date = 1100, semester = First\<rparr>]\<rparr>) 1 = 2"
proof -
  let ?r1 = "\<lparr>studentId = 1, courseId = 1, grade = None, date = 1000, semester = First\<rparr>"
  let ?r2 = "\<lparr>studentId = 1, courseId = 1, grade = None, date = 1100, semester = First\<rparr>"
  let ?ums1 = "script_seeded\<lparr>grades := [?r1]\<rparr>"
  have c: "find (\<lambda>c. Course.id c = 1) (courses script_seeded) = Some course1"
    by (simp add: script_seeded_eq course1_def)
  have s: "find (\<lambda>s. Student.id s = 1) (students script_seeded) = Some student1"
    by (simp add: script_seeded_eq student1_eq)
  have f: "Course.faculty course1 = StudentWithoutId.faculty student1"
    by (simp add: course1_def student1_eq)
  have r: "registerForCourse script_seeded 1 1 1000 = (Inr (), ?ums1)"
    by (simp add: registerForCourse_def script_seeded_eq student1_eq course1_def)
  have m: "int (registrations ?ums1 1) < maxStudents course1"
    by (simp add: registrations_def course1_def)
  have g: "grades script_seeded = []" and e: "Course.semester course1 = First"
    by (simp_all add: script_seeded_eq course1_def)
  have z: "registrations script_seeded 1 = 0"
    by (simp add: registrations_def g)
  from registerForCourse_duplicate [of 1 script_seeded course1 1 student1 1000 ?ums1 1100]
       c s f r m
  have "registerForCourse ?ums1 1 1 1100 =
          (Inr (), script_seeded\<lparr>grades := grades script_seeded @
             [\<lparr>studentId = 1, courseId = 1, grade = None, date = 1000,
               semester = Course.semester course1\<rparr>,
              \<lparr>studentId = 1, courseId = 1, grade = None, date = 1100,
               semester = Course.semester course1\<rparr>]\<rparr>) \<and>
        registrations (snd (registerForCourse ?ums1 1 1 1100)) 1
          = registrations script_seeded 1 + 2"
    by blast
  then have A: "registerForCourse ?ums1 1 1 1100 = (Inr (), script_seeded\<lparr>grades := [?r1, ?r2]\<rparr>)"
    and B: "registrations (snd (registerForCourse ?ums1 1 1 1100)) 1 = 2"
    unfolding g e z by (simp_all add: registrations_def)
  from B have "registrations (script_seeded\<lparr>grades := [?r1, ?r2]\<rparr>) 1 = 2"
    unfolding A by simp
  with A have "registerForCourse ?ums1 1 1 1100 = (Inr (), script_seeded\<lparr>grades := [?r1, ?r2]\<rparr>) \<and>
     registrations (script_seeded\<lparr>grades := [?r1, ?r2]\<rparr>) 1 = 2"
    by (rule conjI)
  with r z show ?thesis by simp
qed

section \<open>The status of a student and the other methods\<close>




end
